theory Spec2Isabelle
  imports Main "HOL-Library.Char_ord" "HOL-Library.List_Lexorder" "HOL-Library.Sublist"
begin

section \<open>Language registry (language\_codes.py)\<close>

text \<open>
  A Python \<open>str\<close> is modelled as a \<^typ>\<open>string\<close>: one \<^typ>\<open>char\<close> per code point,
  for code points below 256. All literals of the program that the model needs are ASCII.

  The module-level dictionary \<open>LANGUAGES\<close> maps display names to ISO codes. A Python
  dictionary keeps its insertion order, and \<open>get_language_name\<close> depends on it, so the
  dictionary is an association list in declaration order. Its keys are pairwise distinct
  (lemma \<open>LANGUAGES_names_distinct\<close>), so the list is the dictionary.
\<close>

definition LANGUAGES :: "(string \<times> string) list" where
  "LANGUAGES = [
    (''Auto Detect'', ''auto''),
    (''English'', ''en''),
    (''Spanish'', ''es''),
    (''French'', ''fr''),
    (''German'', ''de''),
    (''Italian'', ''it''),
    (''Portuguese'', ''pt''),
    (''Russian'', ''ru''),
    (''Chinese (Simplified)'', ''zh-cn''),
    (''Chinese (Traditional)'', ''zh-tw''),
    (''Japanese'', ''ja''),
    (''Korean'', ''ko''),
    (''Arabic'', ''ar''),
    (''Hindi'', ''hi''),
    (''Dutch'', ''nl''),
    (''Polish'', ''pl''),
    (''Turkish'', ''tr''),
    (''Swedish'', ''sv''),
    (''Norwegian'', ''no''),
    (''Danish'', ''da''),
    (''Finnish'', ''fi''),
    (''Greek'', ''el''),
    (''Hebrew'', ''he''),
    (''Thai'', ''th''),
    (''Vietnamese'', ''vi''),
    (''Indonesian'', ''id''),
    (''Malay'', ''ms''),
    (''Czech'', ''cs''),
    (''Hungarian'', ''hu''),
    (''Romanian'', ''ro''),
    (''Bulgarian'', ''bg''),
    (''Croatian'', ''hr''),
    (''Slovak'', ''sk''),
    (''Slovenian'', ''sl''),
    (''Estonian'', ''et''),
    (''Latvian'', ''lv''),
    (''Lithuanian'', ''lt''),
    (''Ukrainian'', ''uk''),
    (''Bengali'', ''bn''),
    (''Tamil'', ''ta''),
    (''Telugu'', ''te''),
    (''Gujarati'', ''gu''),
    (''Marathi'', ''mr''),
    (''Punjabi'', ''pa''),
    (''Urdu'', ''ur''),
    (''Persian'', ''fa''),
    (''Swahili'', ''sw''),
    (''Afrikaans'', ''af''),
    (''Albanian'', ''sq''),
    (''Armenian'', ''hy''),
    (''Azerbaijani'', ''az''),
    (''Basque'', ''eu''),
    (''Belarusian'', ''be''),
    (''Bosnian'', ''bs''),
    (''Catalan'', ''ca''),
    (''Filipino'', ''tl''),
    (''Galician'', ''gl''),
    (''Georgian'', ''ka''),
    (''Icelandic'', ''is''),
    (''Irish'', ''ga''),
    (''Kazakh'', ''kk''),
    (''Kurdish'', ''ku''),
    (''Kyrgyz'', ''ky''),
    (''Latin'', ''la''),
    (''Luxembourgish'', ''lb''),
    (''Macedonian'', ''mk''),
    (''Maltese'', ''mt''),
    (''Mongolian'', ''mn''),
    (''Nepali'', ''ne''),
    (''Pashto'', ''ps''),
    (''Serbian'', ''sr''),
    (''Sinhala'', ''si''),
    (''Tajik'', ''tg''),
    (''Uzbek'', ''uz''),
    (''Welsh'', ''cy''),
    (''Yiddish'', ''yi'')]"

text \<open>\<open>LANGUAGES.keys()\<close> and \<open>LANGUAGES.items()\<close>, in insertion order.\<close>

definition LANGUAGES_keys :: "string list" where
  "LANGUAGES_keys = map fst LANGUAGES"

definition LANGUAGES_values :: "string list" where
  "LANGUAGES_values = map snd LANGUAGES"

text \<open>
  \<open>dict.get(key, default)\<close>: the value stored under the key, the default when the key
  is absent. Keys are compared with \<open>==\<close> on \<open>str\<close>, which is exact and case-sensitive.
\<close>

fun dict_get :: "(string \<times> string) list \<Rightarrow> string \<Rightarrow> string \<Rightarrow> string" where
  "dict_get [] key dflt = dflt"
| "dict_get ((k, v) # items) key dflt = (if k = key then v else dict_get items key dflt)"

text \<open>\<open>def get_language_names(): return sorted(LANGUAGES.keys())\<close>. Python orders
  \<open>str\<close> lexicographically by code point, a proper prefix first: the order of
  \<^typ>\<open>string\<close> here.\<close>

definition get_language_names :: "string list" where
  "get_language_names = sort LANGUAGES_keys"

text \<open>\<open>def get_language_code(language_name): return LANGUAGES.get(language_name, "en")\<close>\<close>

definition get_language_code :: "string \<Rightarrow> string" where
  "get_language_code language_name = dict_get LANGUAGES language_name ''en''"

text \<open>
  \<^verbatim>\<open>
  def get_language_name(language_code):
      for name, code in LANGUAGES.items():
          if code == language_code:
              return name
      return "English"
  \<close>
  The loop over the items is a recursion over the association list.
\<close>

fun get_language_name_loop :: "(string \<times> string) list \<Rightarrow> string \<Rightarrow> string" where
  "get_language_name_loop [] language_code = ''English''"
| "get_language_name_loop ((name, code) # items) language_code =
     (if code = language_code then name else get_language_name_loop items language_code)"

definition get_language_name :: "string \<Rightarrow> string" where
  "get_language_name language_code = get_language_name_loop LANGUAGES language_code"

section \<open>Strings and exceptions of the Python model\<close>

text \<open>
  \<open>str.isspace\<close> on one code point below 256: the control characters U+0009 to U+000D
  and U+001C to U+001F, the space, U+0085 and U+00A0.
\<close>

definition isspace :: "char \<Rightarrow> bool" where
  "isspace c =
     (let n = (of_char c :: nat)
      in (9 \<le> n \<and> n \<le> 13) \<or> (28 \<le> n \<and> n \<le> 32) \<or> n = 133 \<or> n = 160)"

text \<open>\<open>str.strip()\<close> with no argument removes leading and trailing whitespace.\<close>

definition str_lstrip :: "string \<Rightarrow> string" where
  "str_lstrip s = dropWhile isspace s"

definition str_rstrip :: "string \<Rightarrow> string" where
  "str_rstrip s = rev (dropWhile isspace (rev s))"

definition str_strip :: "string \<Rightarrow> string" where
  "str_strip s = str_rstrip (str_lstrip s)"

text \<open>
  \<open>str.lower()\<close> on code points below 256: the letters A to Z and the Latin-1 capitals
  U+00C0 to U+00DE (U+00D7, the multiplication sign, is no letter) move up by 32; every
  other character stays.
\<close>

definition lower_char :: "char \<Rightarrow> char" where
  "lower_char c =
     (let n = (of_char c :: nat)
      in if (65 \<le> n \<and> n \<le> 90) \<or> (192 \<le> n \<and> n \<le> 222 \<and> n \<noteq> 215)
         then char_of (n + 32) else c)"

definition str_lower :: "string \<Rightarrow> string" where
  "str_lower s = map lower_char s"

text \<open>\<open>sub in s\<close> on \<open>str\<close>: \<open>sub\<close> occurs in \<open>s\<close> as a contiguous substring.\<close>

fun str_in :: "string \<Rightarrow> string \<Rightarrow> bool" where
  "str_in sub [] = (sub = [])"
| "str_in sub (c # s) = (prefix sub (c # s) \<or> str_in sub s)"

text \<open>The decimal text of an \<open>int\<close>, as an f-string formats it.\<close>

definition digit_char :: "nat \<Rightarrow> char" where
  "digit_char d = char_of (48 + d)"

fun str_nat :: "nat \<Rightarrow> string" where
  "str_nat n = (if n < 10 then [digit_char n] else str_nat (n div 10) @ [digit_char (n mod 10)])"

declare str_nat.simps [simp del]

definition str_int :: "int \<Rightarrow> string" where
  "str_int i = (if i < 0 then CHR ''-'' # str_nat (nat (- i)) else str_nat (nat i))"

text \<open>
  An instance of Python's \<open>Exception\<close> whose \<open>str(e)\<close> returns, as far as
  \<open>translate_text\<close> looks at it: the classes of which it is an instance, and \<open>str(e)\<close>.
  The classes are the three of \<open>requests.exceptions\<close> that the \<open>except\<close> clauses name,
  and Python's built-in \<open>ConnectionRefusedError\<close>, which a socket raises when the
  connection is refused and which is no subclass of any class of \<open>requests\<close>. An
  exception can be an instance of several classes
  (\<open>requests.exceptions.ConnectTimeout\<close> derives from both \<open>ConnectionError\<close> and
  \<open>Timeout\<close>), or of none of them.
\<close>

datatype exc_class = ConnectionError | Timeout | HTTPError | ConnectionRefusedError

record py_exception =
  exc_classes :: "exc_class list"
  exc_str :: string

definition isinstance :: "py_exception \<Rightarrow> exc_class \<Rightarrow> bool" where
  "isinstance e c = (c \<in> set (exc_classes e))"

text \<open>
  What else a call can raise: an instance of \<open>BaseException\<close> that is no instance of
  \<open>Exception\<close> (\<open>KeyboardInterrupt\<close>, \<open>SystemExit\<close>, \<open>GeneratorExit\<close>), given by its
  name; or an instance of \<open>Exception\<close> whose \<open>__str__\<close> raises, given by its classes and
  by the exception that \<open>str(e)\<close> raises.
\<close>

datatype other_exception =
    NotException string
  | StrRaises "exc_class list" py_exception

text \<open>A call returns a value, raises an exception of the first kind, or raises one of
  the second kind.\<close>

datatype 'a outcome = Returns 'a | Raises py_exception | Raises_other other_exception

section \<open>Translation service (translator.py)\<close>

text \<open>
  The object that \<open>Translator.translate\<close> returns; the service reads its attribute
  \<open>text\<close> only, which is a \<open>str\<close> or \<open>None\<close>.
\<close>

record translated =
  result_text :: "string option"

text \<open>
  The backend is the \<open>googletrans\<close> client, a black box. Its behaviour on a call
  \<open>translate(text, src=source_lang, dest=target_lang)\<close> is a parameter of the model: it
  returns an object (\<open>None\<close> is Python's \<open>None\<close>) or raises. Every call is appended to a
  log, the call counter of a fake backend being the length of the log.
\<close>

type_synonym backend = "string \<Rightarrow> string \<Rightarrow> string \<Rightarrow> translated option outcome"

type_synonym call_log = "(string \<times> string \<times> string) list"

record TranslationService =
  translator :: backend
  max_chars :: int

text \<open>\<open>__init__\<close>: \<open>self.translator = Translator(); self.max_chars = 5000\<close>.\<close>

definition TranslationService_init :: "backend \<Rightarrow> TranslationService" where
  "TranslationService_init b = \<lparr>translator = b, max_chars = 5000\<rparr>"

text \<open>Reading \<open>result.text\<close> when \<open>result\<close> is \<open>None\<close> raises this \<open>AttributeError\<close>.\<close>

definition AttributeError_None_text :: py_exception where
  "AttributeError_None_text =
     \<lparr>exc_classes = [],
      exc_str = [CHR 0x27] @ ''NoneType'' @ [CHR 0x27] @ '' object has no attribute ''
                @ [CHR 0x27] @ ''text'' @ [CHR 0x27]\<rparr>"

text \<open>
  The body of the \<open>try\<close> statement of \<open>translate_text\<close> (translator.py, lines 31 to 52):
  the two validation checks, the short-circuit for equal languages, the backend call and
  \<open>return result.text, None\<close>. The result is the pair \<open>(translated_text, error_message)\<close>
  or the exception that left the body, together with the call log.
\<close>

definition translate_text_try ::
  "TranslationService \<Rightarrow> call_log \<Rightarrow> string \<Rightarrow> string \<Rightarrow> string
     \<Rightarrow> (string option \<times> string option) outcome \<times> call_log" where
  "translate_text_try self calls text source_lang target_lang =
     (if text = [] \<or> str_strip text = [] then
        (Returns (None, Some ''Please enter text to translate''), calls)
      else if int (length text) > max_chars self then
        (Returns (None, Some (''Text too long. Maximum '' @ str_int (max_chars self)
                              @ '' characters allowed.'')), calls)
      else if source_lang = target_lang \<and> source_lang \<noteq> ''auto'' then
        (Returns (Some text, None), calls)
      else
        (case translator self text source_lang target_lang of
           Raises e \<Rightarrow> (Raises e, calls @ [(text, source_lang, target_lang)])
         | Raises_other x \<Rightarrow> (Raises_other x, calls @ [(text, source_lang, target_lang)])
         | Returns None \<Rightarrow>
             (Raises AttributeError_None_text, calls @ [(text, source_lang, target_lang)])
         | Returns (Some result) \<Rightarrow>
             (Returns (result_text result, None),
              calls @ [(text, source_lang, target_lang)])))"

text \<open>
  The \<open>except\<close> clauses (lines 54 to 69), tried in the order they are written: the first
  clause whose class the exception is an instance of handles it. This is their effect on
  an instance of \<open>Exception\<close> whose \<open>str(e)\<close> returns: every clause returns a pair.
\<close>

definition translate_text_except :: "py_exception \<Rightarrow> string option \<times> string option" where
  "translate_text_except e =
     (if isinstance e ConnectionError then
        (None, Some ''Network error: Please check your internet connection'')
      else if isinstance e Timeout then
        (None, Some ''Translation timeout: Please try again'')
      else if isinstance e HTTPError then
        (None, Some (''Translation service error: '' @ exc_str e))
      else
        (let error_msg = str_lower (exc_str e) in
         if str_in ''429'' error_msg \<or> str_in ''too many requests'' error_msg then
           (None, Some ''Rate limit exceeded: Please wait a moment and try again'')
         else if str_in ''403'' error_msg \<or> str_in ''forbidden'' error_msg then
           (None, Some ''Translation service access denied: Please check your connection'')
         else if str_in ''service unavailable'' error_msg then
           (None, Some ''Translation service temporarily unavailable'')
         else
           (None, Some (''Translation failed: '' @ exc_str e))))"

text \<open>
  The same clauses on the other exceptions. No clause names a class of an exception that
  is no instance of \<open>Exception\<close>: it leaves the function. For an instance of \<open>Exception\<close>
  whose \<open>__str__\<close> raises, the clauses for \<open>ConnectionError\<close> and \<open>Timeout\<close> return without
  calling \<open>str(e)\<close>; the clause for \<open>HTTPError\<close> (line 59) and the last clause (line 61)
  call \<open>str(e)\<close>, and what it raises leaves the function.
\<close>

fun translate_text_except_other ::
  "other_exception \<Rightarrow> (string option \<times> string option) outcome" where
  "translate_text_except_other (NotException name) = Raises_other (NotException name)"
| "translate_text_except_other (StrRaises classes raised) =
     (if ConnectionError \<in> set classes then
        Returns (None, Some ''Network error: Please check your internet connection'')
      else if Timeout \<in> set classes then
        Returns (None, Some ''Translation timeout: Please try again'')
      else Raises raised)"

definition translate_text ::
  "TranslationService \<Rightarrow> call_log \<Rightarrow> string \<Rightarrow> string \<Rightarrow> string
     \<Rightarrow> (string option \<times> string option) outcome \<times> call_log" where
  "translate_text self calls text source_lang target_lang =
     (case translate_text_try self calls text source_lang target_lang of
        (Returns r, calls') \<Rightarrow> (Returns r, calls')
      | (Raises e, calls') \<Rightarrow> (Returns (translate_text_except e), calls')
      | (Raises_other x, calls') \<Rightarrow> (translate_text_except_other x, calls'))"

text \<open>
  \<^verbatim>\<open>
  def is_service_available(self) -> bool:
      try:
          test_result = self.translator.translate("test", src="en", dest="es")
          return test_result is not None
      except:
          return False
  \<close>
  The bare \<open>except\<close> handles every exception, of either kind.
\<close>

definition is_service_available_try ::
  "TranslationService \<Rightarrow> call_log \<Rightarrow> bool outcome \<times> call_log" where
  "is_service_available_try self calls =
     (case translator self ''test'' ''en'' ''es'' of
        Raises e \<Rightarrow> (Raises e, calls @ [(''test'', ''en'', ''es'')])
      | Raises_other x \<Rightarrow> (Raises_other x, calls @ [(''test'', ''en'', ''es'')])
      | Returns test_result \<Rightarrow> (Returns (test_result \<noteq> None), calls @ [(''test'', ''en'', ''es'')]))"

definition is_service_available :: "TranslationService \<Rightarrow> call_log \<Rightarrow> bool \<times> call_log" where
  "is_service_available self calls =
     (case is_service_available_try self calls of
        (Returns b, calls') \<Rightarrow> (b, calls')
      | (Raises e, calls') \<Rightarrow> (False, calls')
      | (Raises_other x, calls') \<Rightarrow> (False, calls'))"

section \<open>Language listings of the window (gui.py)\<close>

text \<open>The values of the two comboboxes of \<open>TranslationApp.create_widgets\<close>:
  \<open>values=get_language_names()\<close> for the source language and
  \<open>values=[lang for lang in get_language_names() if lang != "Auto Detect"]\<close> for the
  target language.\<close>

definition source_lang_combo_values :: "string list" where
  "source_lang_combo_values = get_language_names"

definition target_lang_combo_values :: "string list" where
  "target_lang_combo_values = filter (\<lambda>lang. lang \<noteq> ''Auto Detect'') get_language_names"

text \<open>
  The values that \<open>on_target_lang_search\<close> gives the target combobox while the user
  types, from the text of the target language variable:
  \<^verbatim>\<open>
  search_text = self.target_lang_var.get().lower()
  if search_text:
      all_languages = [lang for lang in get_language_names() if lang != "Auto Detect"]
      filtered_languages = [lang for lang in all_languages if search_text in lang.lower()]
      self.target_lang_combo['values'] = filtered_languages
      ...
  else:
      self.target_lang_combo['values'] =
          [lang for lang in get_language_names() if lang != "Auto Detect"]
  \<close>
\<close>

definition on_target_lang_search_values :: "string \<Rightarrow> string list" where
  "on_target_lang_search_values target_lang_var =
     (let search_text = str_lower target_lang_var in
      if search_text \<noteq> [] then
        (let all_languages = filter (\<lambda>lang. lang \<noteq> ''Auto Detect'') get_language_names;
             filtered_languages = filter (\<lambda>lang. str_in search_text (str_lower lang)) all_languages
         in filtered_languages)
      else filter (\<lambda>lang. lang \<noteq> ''Auto Detect'') get_language_names)"

section \<open>Saving a translation (gui.py, \<open>TranslationApp.save_translation\<close>)\<close>

text \<open>
  What \<open>save_translation\<close> reads: the contents of the output and input text widgets
  (\<open>get("1.0", tk.END)\<close>) and the two language variables. The path is what the save
  dialog returns, the empty string when the user cancels.
\<close>

record save_inputs =
  output_text :: string
  input_text :: string
  source_lang_var :: string
  target_lang_var :: string

text \<open>
  The six \<open>file.write\<close> calls, in order (lines 733 to 738):
  \<^verbatim>\<open>
  file.write(f"Phrase Bridge Translation\n")
  file.write(f"={'='*30}\n\n")
  file.write(f"Source Language: {source_lang}\n")
  file.write(f"Target Language: {target_lang}\n\n")
  file.write(f"Original Text:\n{source_text}\n\n")
  file.write(f"Translation:\n{translation}\n")
  \<close>
\<close>

definition save_translation_writes :: "string \<Rightarrow> string \<Rightarrow> string \<Rightarrow> string \<Rightarrow> string list" where
  "save_translation_writes source_lang target_lang source_text translation =
     [''Phrase Bridge Translation\<newline>'',
      ''='' @ replicate 30 (CHR ''='') @ ''\<newline>\<newline>'',
      ''Source Language: '' @ source_lang @ ''\<newline>'',
      ''Target Language: '' @ target_lang @ ''\<newline>\<newline>'',
      ''Original Text:\<newline>'' @ source_text @ ''\<newline>\<newline>'',
      ''Translation:\<newline>'' @ translation @ ''\<newline>'']"

text \<open>
  \<open>save_translation\<close>: nothing is written when the stripped translation is empty or when
  the dialog gives no path; otherwise the file at the path is opened for writing
  (truncated) and receives the six writes. The result is the path and the text written,
  or \<open>None\<close> when no file is written. Failures of the file system are outside the model.
\<close>

definition save_translation :: "save_inputs \<Rightarrow> string \<Rightarrow> (string \<times> string) option" where
  "save_translation w file_path =
     (let translation = str_strip (output_text w) in
      if translation = [] then None
      else if file_path = [] then None
      else
        (let source_text = str_strip (input_text w);
             source_lang = source_lang_var w;
             target_lang = target_lang_var w
         in Some (file_path,
                  concat (save_translation_writes source_lang target_lang source_text translation))))"

text \<open>A text of lines: every line is followed by a newline.\<close>

definition unlines :: "string list \<Rightarrow> string" where
  "unlines ls = concat (map (\<lambda>l. l @ ''\<newline>'') ls)"

section \<open>The error classification as an ordered rule list\<close>



section \<open>Fake backends\<close>

text \<open>The backends of the concrete examples: one that raises the same exception on every
  call, one that returns the same translation on every call, and one that has the same
  given outcome on every call.\<close>

definition fake_backend_raises :: "py_exception \<Rightarrow> backend" where
  "fake_backend_raises e = (\<lambda>text src dest. Raises e)"

definition fake_backend_returns :: "string \<Rightarrow> backend" where
  "fake_backend_returns translation =
     (\<lambda>text src dest. Returns (Some \<lparr>result_text = Some translation\<rparr>))"

definition fake_backend_outcome :: "translated option outcome \<Rightarrow> backend" where
  "fake_backend_outcome out = (\<lambda>text src dest. out)"

section \<open>Properties of the language registry\<close>

lemma LANGUAGES_names_distinct: "distinct LANGUAGES_keys"
  unfolding LANGUAGES_keys_def LANGUAGES_def by simp

lemma LANGUAGES_codes_distinct: "distinct LANGUAGES_values"
  unfolding LANGUAGES_values_def LANGUAGES_def by simp

lemma dict_get_absent: "key \<notin> fst ` set items \<Longrightarrow> dict_get items key dflt = dflt"
  by (induction items) auto

lemma dict_get_present:
  "distinct (map fst items) \<Longrightarrow> (k, v) \<in> set items \<Longrightarrow> dict_get items k dflt = v"
  by (induction items) (auto simp: rev_image_eqI)

lemma name_loop_absent:
  "c \<notin> snd ` set items \<Longrightarrow> get_language_name_loop items c = ''English''"
  by (induction items) auto

lemma name_loop_present:
  "distinct (map snd items) \<Longrightarrow> (n, c) \<in> set items \<Longrightarrow> get_language_name_loop items c = n"
  by (induction items) (auto simp: rev_image_eqI)

text \<open>The loop returns the name of the first item that carries the code: no item before
  it does.\<close>

lemma name_loop_first:
  "c \<in> snd ` set items \<Longrightarrow>
     \<exists>pre post. items = pre @ (get_language_name_loop items c, c) # post \<and> c \<notin> snd ` set pre"
proof (induction items)
  case Nil
  then show ?case by simp
next
  case (Cons a items)
  obtain n k where a: "a = (n, k)" by (cases a)
  show ?case
  proof (cases "k = c")
    case True
    then have "a # items = [] @ (get_language_name_loop (a # items) c, c) # items
                 \<and> c \<notin> snd ` set []"
      using a by simp
    then show ?thesis by blast
  next
    case False
    with Cons.prems a have "c \<in> snd ` set items" by auto
    from Cons.IH [OF this] obtain pre post where
      pp: "items = pre @ (get_language_name_loop items c, c) # post" "c \<notin> snd ` set pre"
      by blast
    have "a # items = (a # pre) @ (get_language_name_loop (a # items) c, c) # post"
      using pp(1) a False by simp
    moreover have "c \<notin> snd ` set (a # pre)" using pp(2) a False by auto
    ultimately show ?thesis by blast
  qed
qed

text \<open>On a registry name, the name of its code is the name itself: codes are unique.\<close>

lemma name_of_code:
  assumes "n \<in> set LANGUAGES_keys"
  shows "get_language_name (get_language_code n) = n"
proof -
  from assms obtain c where nc: "(n, c) \<in> set LANGUAGES"
    unfolding LANGUAGES_keys_def by auto
  have "get_language_code n = c"
    unfolding get_language_code_def
    using dict_get_present [OF _ nc] LANGUAGES_names_distinct
    by (simp add: LANGUAGES_keys_def)
  moreover have "get_language_name c = n"
    unfolding get_language_name_def
    using name_loop_present [OF _ nc] LANGUAGES_codes_distinct
    by (simp add: LANGUAGES_values_def)
  ultimately show ?thesis by simp
qed

text \<open>The sorted list of names, computed.\<close>

lemma get_language_names_eq:
  "get_language_names =
    [''Afrikaans'',
     ''Albanian'',
     ''Arabic'',
     ''Armenian'',
     ''Auto Detect'',
     ''Azerbaijani'',
     ''Basque'',
     ''Belarusian'',
     ''Bengali'',
     ''Bosnian'',
     ''Bulgarian'',
     ''Catalan'',
     ''Chinese (Simplified)'',
     ''Chinese (Traditional)'',
     ''Croatian'',
     ''Czech'',
     ''Danish'',
     ''Dutch'',
     ''English'',
     ''Estonian'',
     ''Filipino'',
     ''Finnish'',
     ''French'',
     ''Galician'',
     ''Georgian'',
     ''German'',
     ''Greek'',
     ''Gujarati'',
     ''Hebrew'',
     ''Hindi'',
     ''Hungarian'',
     ''Icelandic'',
     ''Indonesian'',
     ''Irish'',
     ''Italian'',
     ''Japanese'',
     ''Kazakh'',
     ''Korean'',
     ''Kurdish'',
     ''Kyrgyz'',
     ''Latin'',
     ''Latvian'',
     ''Lithuanian'',
     ''Luxembourgish'',
     ''Macedonian'',
     ''Malay'',
     ''Maltese'',
     ''Marathi'',
     ''Mongolian'',
     ''Nepali'',
     ''Norwegian'',
     ''Pashto'',
     ''Persian'',
     ''Polish'',
     ''Portuguese'',
     ''Punjabi'',
     ''Romanian'',
     ''Russian'',
     ''Serbian'',
     ''Sinhala'',
     ''Slovak'',
     ''Slovenian'',
     ''Spanish'',
     ''Swahili'',
     ''Swedish'',
     ''Tajik'',
     ''Tamil'',
     ''Telugu'',
     ''Thai'',
     ''Turkish'',
     ''Ukrainian'',
     ''Urdu'',
     ''Uzbek'',
     ''Vietnamese'',
     ''Welsh'',
     ''Yiddish'']"
  unfolding get_language_names_def LANGUAGES_keys_def LANGUAGES_def
  by code_simp

text \<open>
  C5. For every name \<open>n\<close> that is a key of the registry (the sentinel \<open>Auto Detect\<close>
  included), looking up the code of \<open>n\<close>, then the name of that code, then the code of that
  name gives the code of \<open>n\<close> again.
\<close>

theorem C5_code_name_code_stable:
  "n \<in> set LANGUAGES_keys \<Longrightarrow>
     get_language_code (get_language_name (get_language_code n)) = get_language_code n"
  by (simp add: name_of_code)

theorem C5_code_name_code_stable_witness:
  "''Auto Detect'' \<in> set LANGUAGES_keys \<and>
   get_language_code ''Auto Detect'' = ''auto'' \<and>
   get_language_name ''auto'' = ''Auto Detect'' \<and>
   get_language_code (get_language_name (get_language_code ''Auto Detect''))
     = get_language_code ''Auto Detect''"
  using C5_code_name_code_stable [of "''Auto Detect''"]
  by (simp add: LANGUAGES_keys_def LANGUAGES_def get_language_code_def get_language_name_def)

text \<open>
  C6. \<open>get_language_code\<close> and \<open>get_language_name\<close> are total functions with no error
  result. A string that is no registry name (names are compared exactly, so a name in
  another letter case is no registry name) has the fallback code \<open>en\<close>; a string that is no
  registry code has the fallback name \<open>English\<close>; and for a registry code the name
  returned is that of the first registry entry, in declaration order, that carries the
  code.
\<close>

theorem C6_lookup_fallbacks:
  "(n \<notin> set LANGUAGES_keys \<longrightarrow> get_language_code n = ''en'') \<and>
   (c \<notin> set LANGUAGES_values \<longrightarrow> get_language_name c = ''English'') \<and>
   (c \<in> set LANGUAGES_values \<longrightarrow>
      (\<exists>pre post. LANGUAGES = pre @ (get_language_name c, c) # post \<and> c \<notin> snd ` set pre))"
proof (intro conjI impI)
  assume "n \<notin> set LANGUAGES_keys"
  then show "get_language_code n = ''en''"
    unfolding get_language_code_def LANGUAGES_keys_def
    by (simp add: dict_get_absent)
next
  assume "c \<notin> set LANGUAGES_values"
  then show "get_language_name c = ''English''"
    unfolding get_language_name_def LANGUAGES_values_def
    by (simp add: name_loop_absent)
next
  assume "c \<in> set LANGUAGES_values"
  then have "c \<in> snd ` set LANGUAGES"
    unfolding LANGUAGES_values_def by simp
  then show "\<exists>pre post. LANGUAGES = pre @ (get_language_name c, c) # post \<and> c \<notin> snd ` set pre"
    unfolding get_language_name_def by (rule name_loop_first)
qed

theorem C6_lookup_fallbacks_witness:
  "''not a real language'' \<notin> set LANGUAGES_keys \<and>
   get_language_code ''not a real language'' = ''en'' \<and>
   ''spanish'' \<notin> set LANGUAGES_keys \<and> get_language_code ''spanish'' = ''en'' \<and>
   ''zz'' \<notin> set LANGUAGES_values \<and> get_language_name ''zz'' = ''English'' \<and>
   ''es'' \<in> set LANGUAGES_values \<and> get_language_name ''es'' = ''Spanish''"
  using C6_lookup_fallbacks [of "''not a real language''" "''zz''"]
        C6_lookup_fallbacks [of "''spanish''" "''es''"]
  by (simp add: LANGUAGES_keys_def LANGUAGES_values_def LANGUAGES_def
                get_language_code_def get_language_name_def)

text \<open>
  C7. \<open>get_language_names\<close> returns all registry names, each once, in ascending
  lexicographic order, \<open>Auto Detect\<close> among them. The source-language listing is that list;
  the target-language listing derived from it leaves out \<open>Auto Detect\<close> and holds every
  other registry name, in the same order. The listing that the target combobox gets while
  the user types never holds \<open>Auto Detect\<close> either.
\<close>

theorem C7_names_sorted_and_listings:
  "sorted get_language_names \<and> distinct get_language_names \<and>
   set get_language_names = set LANGUAGES_keys \<and>
   ''Auto Detect'' \<in> set get_language_names \<and>
   ''Auto Detect'' \<in> set source_lang_combo_values \<and>
   ''Auto Detect'' \<notin> set target_lang_combo_values \<and>
   sorted target_lang_combo_values \<and>
   set target_lang_combo_values = set LANGUAGES_keys - {''Auto Detect''} \<and>
   ''Auto Detect'' \<notin> set (on_target_lang_search_values typed)"
proof -
  have a: "''Auto Detect'' \<in> set LANGUAGES_keys"
    by (simp add: LANGUAGES_keys_def LANGUAGES_def)
  have s: "sorted get_language_names"
    by (simp add: get_language_names_def)
  have d: "distinct get_language_names"
    by (simp add: get_language_names_def LANGUAGES_names_distinct)
  have e: "set get_language_names = set LANGUAGES_keys"
    by (simp add: get_language_names_def)
  have st: "sorted target_lang_combo_values"
    unfolding target_lang_combo_values_def using s by (rule sorted_wrt_filter)
  have et: "set target_lang_combo_values = set LANGUAGES_keys - {''Auto Detect''}"
    unfolding target_lang_combo_values_def using e by auto
  have search: "''Auto Detect'' \<notin> set (on_target_lang_search_values typed)"
    by (simp add: on_target_lang_search_values_def Let_def)
  show ?thesis
    using a s d e st et search by (simp add: source_lang_combo_values_def)
qed

section \<open>Properties of the string operations\<close>

text \<open>A string strips to the empty string exactly when all its characters are
  whitespace.\<close>

lemma str_strip_Nil_iff: "str_strip s = [] \<longleftrightarrow> (\<forall>c \<in> set s. isspace c)"
proof
  assume "str_strip s = []"
  then have "\<forall>c \<in> set (dropWhile isspace s). isspace c"
    by (simp add: str_strip_def str_rstrip_def str_lstrip_def dropWhile_eq_Nil_conv)
  then have "dropWhile isspace s = []"
    using hd_dropWhile [of isspace s] hd_in_set [of "dropWhile isspace s"] by blast
  then show "\<forall>c \<in> set s. isspace c"
    by (simp add: dropWhile_eq_Nil_conv)
next
  assume "\<forall>c \<in> set s. isspace c"
  then show "str_strip s = []"
    by (auto simp add: str_strip_def str_rstrip_def str_lstrip_def dropWhile_eq_Nil_conv
             dest: set_dropWhileD)
qed

text \<open>\<open>str_in\<close> is the substring relation.\<close>

lemma str_in_iff: "str_in sub s \<longleftrightarrow> (\<exists>pre post. s = pre @ sub @ post)"
proof (induction s)
  case Nil
  then show ?case by auto
next
  case (Cons c s)
  show ?case
  proof
    assume "str_in sub (c # s)"
    then consider "prefix sub (c # s)" | "str_in sub s" by auto
    then show "\<exists>pre post. c # s = pre @ sub @ post"
    proof cases
      case 1
      then obtain post where "c # s = sub @ post" by (auto simp: prefix_def)
      then have "c # s = [] @ sub @ post" by simp
      then show ?thesis by blast
    next
      case 2
      with Cons.IH obtain pre post where "s = pre @ sub @ post" by blast
      then have "c # s = (c # pre) @ sub @ post" by simp
      then show ?thesis by blast
    qed
  next
    assume "\<exists>pre post. c # s = pre @ sub @ post"
    then obtain pre post where e: "c # s = pre @ sub @ post" by blast
    show "str_in sub (c # s)"
    proof (cases pre)
      case Nil
      with e have "prefix sub (c # s)" by (simp add: prefix_def)
      then show ?thesis by simp
    next
      case (Cons a pre')
      with e have "s = pre' @ sub @ post" by simp
      with Cons.IH have "str_in sub s" by blast
      then show ?thesis by simp
    qed
  qed
qed

text \<open>
  Matching a lower-case pattern against the lower-cased message is matching without regard
  to case: the pattern occurs in the lower-cased message exactly when the message has a
  substring that lower-cases to the pattern.
\<close>

lemma str_in_lower_iff:
  "str_in p (str_lower m) \<longleftrightarrow> (\<exists>u. str_in u m \<and> str_lower u = p)"
proof
  assume "str_in p (str_lower m)"
  then obtain pre post where "map lower_char m = pre @ p @ post"
    unfolding str_in_iff str_lower_def by blast
  then have "\<exists>a vs. m = a @ vs \<and> pre = map lower_char a \<and> p @ post = map lower_char vs"
    by (simp add: map_eq_append_conv)
  then obtain a vs where 1: "m = a @ vs" "p @ post = map lower_char vs"
    by blast
  from 1(2) have "\<exists>u b. vs = u @ b \<and> p = map lower_char u \<and> post = map lower_char b"
    by (simp add: append_eq_map_conv)
  then obtain u b where 2: "vs = u @ b" "p = map lower_char u"
    by blast
  from 1(1) 2 have "m = a @ u @ b" "map lower_char u = p" by simp_all
  then show "\<exists>u. str_in u m \<and> str_lower u = p"
    unfolding str_in_iff str_lower_def by blast
next
  assume "\<exists>u. str_in u m \<and> str_lower u = p"
  then obtain u a b where "m = a @ u @ b" "str_lower u = p"
    unfolding str_in_iff by blast
  then have "str_lower m = str_lower a @ p @ str_lower b"
    by (simp add: str_lower_def)
  then show "str_in p (str_lower m)"
    unfolding str_in_iff by blast
qed


lemma str_strip_Nil: "str_strip [] = []"
  by (simp add: str_strip_def str_rstrip_def str_lstrip_def)

text \<open>Evaluation of the character functions on literals.\<close>

lemmas eval_chars = isspace_def lower_char_def str_lower_def char_of_def bit_Suc_0_iff

lemma str_int_5000: "str_int 5000 = ''5000''"
  by (simp add: str_int_def str_nat.simps digit_char_def char_of_def bit_Suc_0_iff)

section \<open>Properties of the translation service\<close>

text \<open>The four paths through \<open>translate_text\<close>: the two validation failures, the
  short-circuit, and the backend call with the handling of its outcome.\<close>

lemma translate_text_empty:
  "str_strip text = [] \<Longrightarrow>
     translate_text self calls text s t
       = (Returns (None, Some ''Please enter text to translate''), calls)"
  by (simp add: translate_text_def translate_text_try_def)

lemma translate_text_too_long:
  "str_strip text \<noteq> [] \<Longrightarrow> int (length text) > max_chars self \<Longrightarrow>
     translate_text self calls text s t =
       (Returns (None, Some (''Text too long. Maximum '' @ str_int (max_chars self)
                             @ '' characters allowed.'')), calls)"
  by (auto simp add: translate_text_def translate_text_try_def str_strip_Nil)

lemma translate_text_same_language:
  "str_strip text \<noteq> [] \<Longrightarrow> int (length text) \<le> max_chars self \<Longrightarrow>
   s = t \<Longrightarrow> s \<noteq> ''auto'' \<Longrightarrow>
     translate_text self calls text s t = (Returns (Some text, None), calls)"
  by (auto simp add: translate_text_def translate_text_try_def str_strip_Nil)

lemma translate_text_backend:
  "str_strip text \<noteq> [] \<Longrightarrow> int (length text) \<le> max_chars self \<Longrightarrow>
   \<not> (s = t \<and> s \<noteq> ''auto'') \<Longrightarrow>
     translate_text self calls text s t =
       ((case translator self text s t of
           Returns (Some result) \<Rightarrow> Returns (result_text result, None)
         | Returns None \<Rightarrow> Returns (translate_text_except AttributeError_None_text)
         | Raises e \<Rightarrow> Returns (translate_text_except e)
         | Raises_other x \<Rightarrow> translate_text_except_other x),
        calls @ [(text, s, t)])"
  by (auto simp add: translate_text_def translate_text_try_def str_strip_Nil
      split: outcome.splits option.splits)

lemma translate_text_except_shape: "\<exists>msg. translate_text_except e = (None, Some msg)"
  by (simp add: translate_text_except_def Let_def)

lemma translate_text_raises:
  assumes "str_strip text \<noteq> []" "int (length text) \<le> max_chars self"
    "\<not> (s = t \<and> s \<noteq> ''auto'')" "translator self text s t = Raises e"
  shows "translate_text self calls text s t
           = (Returns (translate_text_except e), calls @ [(text, s, t)])"
  using assms by (simp add: translate_text_backend)


text \<open>
  C1, as amended. The claim reads: every backend exception whose message contains
  \<open>429\<close> or \<open>too many requests\<close>, case ignored, gives the rate-limit failure, whatever
  the class of the exception. The \<open>except\<close> clauses for \<open>ConnectionError\<close>, \<open>Timeout\<close> and
  \<open>HTTPError\<close> come first and do not look at the message, so the claim holds for the
  exceptions that are instances of none of these three classes: when the backend call is
  reached and raises such an exception \<open>e\<close>, and \<open>str(e)\<close> has a substring \<open>u\<close> that is
  \<open>429\<close> or \<open>too many requests\<close> up to letter case, \<open>translate_text\<close> returns
  \<open>(None, "Rate limit exceeded: Please wait a moment and try again")\<close>, the RateLimited
  failure, after one backend call.
\<close>

theorem C1_rate_limited_by_message:
  assumes "str_strip text \<noteq> []" "int (length text) \<le> max_chars self"
    "\<not> (s = t \<and> s \<noteq> ''auto'')" "translator self text s t = Raises e"
    "\<not> isinstance e ConnectionError" "\<not> isinstance e Timeout" "\<not> isinstance e HTTPError"
    "str_in u (exc_str e)" "str_lower u = ''429'' \<or> str_lower u = ''too many requests''"
  shows "translate_text self calls text s t =
           (Returns (None, Some ''Rate limit exceeded: Please wait a moment and try again''),
            calls @ [(text, s, t)])"
proof -
  have "str_in ''429'' (str_lower (exc_str e))
          \<or> str_in ''too many requests'' (str_lower (exc_str e))"
    using assms(8,9) str_in_lower_iff by blast
  then have "translate_text_except e =
      (None, Some ''Rate limit exceeded: Please wait a moment and try again'')"
    using assms(5-7) by (simp add: translate_text_except_def Let_def)
  then show ?thesis
    using assms(1-4) by (simp add: translate_text_raises)
qed

theorem C1_rate_limited_by_message_witness:
  "str_strip ''hello'' \<noteq> [] \<and>
   int (length ''hello'')
     \<le> max_chars (TranslationService_init (fake_backend_raises
           \<lparr>exc_classes = [], exc_str = ''HTTP Error: Too Many Requests''\<rparr>)) \<and>
   \<not> (''auto'' = ''es'' \<and> ''auto'' \<noteq> ''auto'') \<and>
   str_in ''Too Many Requests'' ''HTTP Error: Too Many Requests'' \<and>
   str_lower ''Too Many Requests'' = ''too many requests'' \<and>
   translate_text (TranslationService_init (fake_backend_raises
       \<lparr>exc_classes = [], exc_str = ''HTTP Error: Too Many Requests''\<rparr>)) [] ''hello'' ''auto'' ''es''
     = (Returns (None, Some ''Rate limit exceeded: Please wait a moment and try again''),
        [(''hello'', ''auto'', ''es'')])"
  using C1_rate_limited_by_message [of "''hello''"
      "TranslationService_init (fake_backend_raises
         \<lparr>exc_classes = [], exc_str = ''HTTP Error: Too Many Requests''\<rparr>)"
      "''auto''" "''es''" "\<lparr>exc_classes = [], exc_str = ''HTTP Error: Too Many Requests''\<rparr>"
      "''Too Many Requests''" "[]"]
  by (simp add: str_strip_Nil_iff TranslationService_init_def fake_backend_raises_def
        isinstance_def eval_chars)

text \<open>The claim as stated fails on an \<open>HTTPError\<close> whose message starts with \<open>429\<close>: the
  third \<open>except\<close> clause returns the backend error, not the rate-limit failure.\<close>

theorem C1_http_error_429_counterexample:
  "str_in ''429'' (str_lower ''429 Client Error: Too Many Requests'') \<and>
   translate_text (TranslationService_init (fake_backend_raises
       \<lparr>exc_classes = [HTTPError], exc_str = ''429 Client Error: Too Many Requests''\<rparr>))
       [] ''hello'' ''auto'' ''es''
     = (Returns (None, Some ''Translation service error: 429 Client Error: Too Many Requests''),
        [(''hello'', ''auto'', ''es'')]) \<and>
   fst (translate_text (TranslationService_init (fake_backend_raises
       \<lparr>exc_classes = [HTTPError], exc_str = ''429 Client Error: Too Many Requests''\<rparr>))
       [] ''hello'' ''auto'' ''es'')
     \<noteq> Returns (None, Some ''Rate limit exceeded: Please wait a moment and try again'')"
  by (simp add: translate_text_def translate_text_try_def translate_text_except_def
        str_strip_Nil_iff TranslationService_init_def fake_backend_raises_def
        isinstance_def eval_chars)

text \<open>
  C2. For every text that passes validation (not empty after stripping, at most 5000
  characters), when the source code equals the target code and is not \<open>auto\<close>,
  \<open>translate_text\<close> returns \<open>(text, None)\<close> with the text unchanged, whatever the backend
  would do, and the call log is unchanged: the backend is not invoked.
\<close>

theorem C2_same_language_short_circuit:
  assumes "s = t" "s \<noteq> ''auto''" "str_strip text \<noteq> []" "length text \<le> 5000"
  shows "translate_text (TranslationService_init b) calls text s t
           = (Returns (Some text, None), calls)"
  using assms by (simp add: translate_text_same_language TranslationService_init_def)

theorem C2_same_language_short_circuit_witness:
  "''en'' \<noteq> ''auto'' \<and> str_strip ''hello'' \<noteq> [] \<and> length ''hello'' \<le> 5000 \<and>
   translate_text (TranslationService_init (fake_backend_returns ''hola'')) [] ''hello'' ''en'' ''en''
     = (Returns (Some ''hello'', None), [])"
  using C2_same_language_short_circuit
          [of "''en''" "''en''" "''hello''" "fake_backend_returns ''hola''" "[]"]
  by (simp add: str_strip_Nil_iff isspace_def)

text \<open>
  C3. For every source and target code, a text that is empty after stripping is rejected
  with the message \<open>Please enter text to translate\<close>, and a text longer than 5000
  characters is rejected with that message (when it is all whitespace) or with
  \<open>Text too long. Maximum 5000 characters allowed.\<close>; these two messages are the
  InvalidInput failures. In both cases the call log is unchanged: the failure is produced
  before the backend is invoked.
\<close>

theorem C3_invalid_input_before_backend:
  "(str_strip text = [] \<longrightarrow>
      translate_text (TranslationService_init b) calls text s t
        = (Returns (None, Some ''Please enter text to translate''), calls)) \<and>
   (5000 < length text \<longrightarrow>
      translate_text (TranslationService_init b) calls text s t
        = (Returns (None, Some (if str_strip text = [] then ''Please enter text to translate''
                                else ''Text too long. Maximum 5000 characters allowed.'')), calls))"
proof (intro conjI impI)
  assume "str_strip text = []"
  then show "translate_text (TranslationService_init b) calls text s t
        = (Returns (None, Some ''Please enter text to translate''), calls)"
    by (rule translate_text_empty)
next
  assume long: "5000 < length text"
  show "translate_text (TranslationService_init b) calls text s t
        = (Returns (None, Some (if str_strip text = [] then ''Please enter text to translate''
                                else ''Text too long. Maximum 5000 characters allowed.'')), calls)"
  proof (cases "str_strip text = []")
    case True
    then show ?thesis by (simp add: translate_text_empty)
  next
    case False
    have "int (length text) > max_chars (TranslationService_init b)"
      using long by (simp add: TranslationService_init_def)
    from translate_text_too_long [OF False this] show ?thesis
      using False by (simp add: TranslationService_init_def str_int_5000)
  qed
qed

theorem C3_invalid_input_before_backend_witness:
  "str_strip [] = [] \<and>
   translate_text (TranslationService_init (fake_backend_returns ''hola'')) [] [] ''auto'' ''es''
     = (Returns (None, Some ''Please enter text to translate''), []) \<and>
   5000 < length (replicate 5001 (CHR ''a'')) \<and>
   translate_text (TranslationService_init (fake_backend_returns ''hola'')) []
       (replicate 5001 (CHR ''a'')) ''auto'' ''es''
     = (Returns (None, Some ''Text too long. Maximum 5000 characters allowed.''), [])"
  using C3_invalid_input_before_backend
          [of "[]" "fake_backend_returns ''hola''" "[]" "''auto''" "''es''"]
        C3_invalid_input_before_backend
          [of "replicate 5001 (CHR ''a'')" "fake_backend_returns ''hola''" "[]" "''auto''" "''es''"]
  by (simp add: str_strip_Nil_iff isspace_def)




text \<open>
  C8. \<open>is_service_available\<close> returns a boolean for every backend: an exception that
  leaves the \<open>try\<close> body is turned into \<open>False\<close> by the bare \<open>except\<close>. It returns \<open>False\<close>
  whenever the canary call \<open>translate("test", src="en", dest="es")\<close> raises, whatever it
  raises, and \<open>True\<close> exactly when that call returns an object.
\<close>

theorem C8_availability_never_raises:
  "(is_service_available_try self calls = (Raises e, calls') \<longrightarrow>
      is_service_available self calls = (False, calls')) \<and>
   (translator self ''test'' ''en'' ''es'' = Raises e \<longrightarrow>
      is_service_available self calls = (False, calls @ [(''test'', ''en'', ''es'')])) \<and>
   (fst (is_service_available self calls)
      \<longleftrightarrow> (\<exists>r. translator self ''test'' ''en'' ''es'' = Returns (Some r))) \<and>
   (translator self ''test'' ''en'' ''es'' = Raises_other x \<longrightarrow>
      is_service_available self calls = (False, calls @ [(''test'', ''en'', ''es'')]))"
  by (auto simp add: is_service_available_def is_service_available_try_def
           split: outcome.splits)

theorem C8_availability_never_raises_witness:
  "is_service_available_try
     (TranslationService_init (fake_backend_raises
        \<lparr>exc_classes = [ConnectionError], exc_str = ''Connection refused''\<rparr>)) []
     = (Raises \<lparr>exc_classes = [ConnectionError], exc_str = ''Connection refused''\<rparr>,
        [(''test'', ''en'', ''es'')]) \<and>
   is_service_available
     (TranslationService_init (fake_backend_raises
        \<lparr>exc_classes = [ConnectionError], exc_str = ''Connection refused''\<rparr>)) []
     = (False, [(''test'', ''en'', ''es'')])"
  using C8_availability_never_raises [of
      "TranslationService_init (fake_backend_raises
         \<lparr>exc_classes = [ConnectionError], exc_str = ''Connection refused''\<rparr>)"
      "[]" "\<lparr>exc_classes = [ConnectionError], exc_str = ''Connection refused''\<rparr>"
      "[(''test'', ''en'', ''es'')]"]
  by (simp add: is_service_available_try_def TranslationService_init_def fake_backend_raises_def)

text \<open>
  C10, as amended. The claim reads: for every backend behaviour the pair returned has
  exactly one component that is not \<open>None\<close>, and the function never raises. That holds for
  the backends that return an object whose \<open>text\<close> is a string, return \<open>None\<close>, or raise
  an instance of \<open>Exception\<close> whose \<open>str(e)\<close> returns: for every text, source code and
  target code and every such backend, \<open>translate_text\<close> returns, and the pair it returns
  has exactly one component that is not \<open>None\<close>. A short-circuited call returns
  \<open>(text, None)\<close>, a successful backend call \<open>(result.text, None)\<close>, and every validation
  or backend failure \<open>(None, message)\<close>.
\<close>

theorem C10_exactly_one_component:
  assumes "\<forall>x. translator self text s t \<noteq> Raises_other x"
    and "\<forall>r. translator self text s t = Returns (Some r) \<longrightarrow> result_text r \<noteq> None"
  shows
  "(\<exists>res calls'. translate_text self calls text s t = (Returns res, calls') \<and>
       ((fst res = None) \<noteq> (snd res = None))) \<and>
   (str_strip text \<noteq> [] \<and> int (length text) \<le> max_chars self \<and> s = t \<and> s \<noteq> ''auto'' \<longrightarrow>
      fst (translate_text self calls text s t) = Returns (Some text, None)) \<and>
   (str_strip text \<noteq> [] \<and> int (length text) \<le> max_chars self \<and> \<not> (s = t \<and> s \<noteq> ''auto'') \<and>
    translator self text s t = Returns (Some \<lparr>result_text = Some translation\<rparr>) \<longrightarrow>
      fst (translate_text self calls text s t) = Returns (Some translation, None)) \<and>
   (str_strip text = [] \<or> int (length text) > max_chars self \<longrightarrow>
      (\<exists>msg. fst (translate_text self calls text s t) = Returns (None, Some msg))) \<and>
   (str_strip text \<noteq> [] \<and> int (length text) \<le> max_chars self \<and> \<not> (s = t \<and> s \<noteq> ''auto'') \<and>
    (translator self text s t = Raises e \<or> translator self text s t = Returns None) \<longrightarrow>
      (\<exists>msg. fst (translate_text self calls text s t) = Returns (None, Some msg)))"
proof -
  let ?r = "fst (translate_text self calls text s t)"
  have same: "?r = Returns (Some text, None)"
    if "str_strip text \<noteq> []" "int (length text) \<le> max_chars self" "s = t" "s \<noteq> ''auto''"
    using that by (simp add: translate_text_same_language)
  have ok: "?r = Returns (result_text r, None)"
    if "str_strip text \<noteq> []" "int (length text) \<le> max_chars self"
       "\<not> (s = t \<and> s \<noteq> ''auto'')" "translator self text s t = Returns (Some r)" for r
    using that by (simp add: translate_text_backend)
  have invalid: "\<exists>msg. ?r = Returns (None, Some msg)"
    if "str_strip text = [] \<or> int (length text) > max_chars self"
  proof (cases "str_strip text = []")
    case True
    then show ?thesis by (simp add: translate_text_empty)
  next
    case False
    with that have "int (length text) > max_chars self" by simp
    with False show ?thesis by (simp add: translate_text_too_long)
  qed
  have failed: "\<exists>msg. ?r = Returns (None, Some msg)"
    if h: "str_strip text \<noteq> []" "int (length text) \<le> max_chars self"
       "\<not> (s = t \<and> s \<noteq> ''auto'')"
       "translator self text s t = Raises e \<or> translator self text s t = Returns None" for e
  proof -
    from h(4) obtain e' where "?r = Returns (translate_text_except e')"
      using h(1-3) by (auto simp add: translate_text_backend)
    then show ?thesis using translate_text_except_shape [of e'] by auto
  qed
  have shape: "(\<exists>x. ?r = Returns (Some x, None)) \<or> (\<exists>msg. ?r = Returns (None, Some msg))"
  proof (cases "str_strip text = [] \<or> int (length text) > max_chars self")
    case True
    from invalid [OF this] show ?thesis by blast
  next
    case valid: False
    then have v: "str_strip text \<noteq> []" "int (length text) \<le> max_chars self" by simp_all
    show ?thesis
    proof (cases "s = t \<and> s \<noteq> ''auto''")
      case True
      with same [OF v] show ?thesis by blast
    next
      case False
      show ?thesis
      proof (cases "translator self text s t")
        case (Returns x)
        show ?thesis
        proof (cases x)
          case None
          with Returns failed [OF v False] show ?thesis by blast
        next
          case (Some r')
          with Returns assms(2) obtain tr where "result_text r' = Some tr" by auto
          with Some Returns ok [OF v False, of r'] show ?thesis by simp
        qed
      next
        case (Raises e')
        with failed [OF v False] show ?thesis by blast
      next
        case (Raises_other x)
        with assms(1) show ?thesis by simp
      qed
    qed
  qed
  have one: "\<exists>res calls'. translate_text self calls text s t = (Returns res, calls') \<and>
       ((fst res = None) \<noteq> (snd res = None))"
  proof -
    from shape obtain res where r: "?r = Returns res" "(fst res = None) \<noteq> (snd res = None)"
      by auto
    then have "translate_text self calls text s t
                 = (Returns res, snd (translate_text self calls text s t))"
      by (metis prod.collapse)
    with r(2) show ?thesis by blast
  qed
  have ok': "?r = Returns (Some translation, None)"
    if "str_strip text \<noteq> [] \<and> int (length text) \<le> max_chars self \<and> \<not> (s = t \<and> s \<noteq> ''auto'') \<and>
        translator self text s t = Returns (Some \<lparr>result_text = Some translation\<rparr>)"
    using that ok [of "\<lparr>result_text = Some translation\<rparr>"] by simp
  show ?thesis
    using one same ok' invalid failed by blast
qed

text \<open>One input for each path: the short-circuit, a successful backend call, an empty
  text, and a backend that raises.\<close>

theorem C10_exactly_one_component_witness:
  "translate_text (TranslationService_init (fake_backend_returns ''hola'')) [] ''hello'' ''en'' ''en''
     = (Returns (Some ''hello'', None), []) \<and>
   translate_text (TranslationService_init (fake_backend_returns ''hola'')) [] ''hello'' ''en'' ''es''
     = (Returns (Some ''hola'', None), [(''hello'', ''en'', ''es'')]) \<and>
   translate_text (TranslationService_init (fake_backend_returns ''hola'')) [] ''  '' ''en'' ''es''
     = (Returns (None, Some ''Please enter text to translate''), []) \<and>
   translate_text (TranslationService_init (fake_backend_raises
       \<lparr>exc_classes = [Timeout], exc_str = ''Read timed out''\<rparr>)) [] ''hello'' ''en'' ''es''
     = (Returns (None, Some ''Translation timeout: Please try again''),
        [(''hello'', ''en'', ''es'')])"
proof -
  have a: "\<forall>x. translator (TranslationService_init (fake_backend_raises
       \<lparr>exc_classes = [Timeout], exc_str = ''Read timed out''\<rparr>)) ''hello'' ''en'' ''es''
       \<noteq> Raises_other x"
    by (simp add: TranslationService_init_def fake_backend_raises_def)
  have b: "\<forall>r. translator (TranslationService_init (fake_backend_raises
       \<lparr>exc_classes = [Timeout], exc_str = ''Read timed out''\<rparr>)) ''hello'' ''en'' ''es''
       = Returns (Some r) \<longrightarrow> result_text r \<noteq> None"
    by (simp add: TranslationService_init_def fake_backend_raises_def)
  from C10_exactly_one_component [OF a b, of "[]" "''hola''"
      "\<lparr>exc_classes = [Timeout], exc_str = ''Read timed out''\<rparr>"]
  show ?thesis
    by (simp add: translate_text_def translate_text_try_def translate_text_except_def
        str_strip_Nil_iff TranslationService_init_def fake_backend_raises_def
        fake_backend_returns_def isinstance_def eval_chars)
qed

text \<open>The claim as stated fails on three backends: one that returns an object whose
  \<open>text\<close> is \<open>None\<close>, for which line 52 returns \<open>(None, None)\<close>; one that raises
  \<open>KeyboardInterrupt\<close>, which no \<open>except\<close> clause handles, so that \<open>translate_text\<close>
  raises it; and one that raises an exception whose \<open>__str__\<close> raises a \<open>TypeError\<close>,
  which leaves the last \<open>except\<close> clause.\<close>

theorem C10_none_text_and_raise_counterexample:
  "translate_text (TranslationService_init (fake_backend_outcome
       (Returns (Some \<lparr>result_text = None\<rparr>)))) [] ''hello'' ''en'' ''es''
     = (Returns (None, None), [(''hello'', ''en'', ''es'')]) \<and>
   translate_text (TranslationService_init (fake_backend_outcome
       (Raises_other (NotException ''KeyboardInterrupt'')))) [] ''hello'' ''en'' ''es''
     = (Raises_other (NotException ''KeyboardInterrupt''), [(''hello'', ''en'', ''es'')]) \<and>
   translate_text (TranslationService_init (fake_backend_outcome
       (Raises_other (StrRaises []
          \<lparr>exc_classes = [], exc_str = ''__str__ returned non-string (type NoneType)''\<rparr>))))
       [] ''hello'' ''en'' ''es''
     = (Raises \<lparr>exc_classes = [], exc_str = ''__str__ returned non-string (type NoneType)''\<rparr>,
        [(''hello'', ''en'', ''es'')])"
  by (simp add: translate_text_def translate_text_try_def
        str_strip_Nil_iff TranslationService_init_def fake_backend_outcome_def isspace_def)

section \<open>Properties of the saved file\<close>

lemma separator_line: "''='' @ replicate 30 (CHR ''='') = replicate 31 (CHR ''='')"
  by (simp add: numeral_eq_Suc)

lemma separator_literal: "replicate 31 (CHR ''='') = ''===============================''"
  by (simp add: numeral_eq_Suc)

text \<open>
  C9, as amended. The claim lists the lines of the saved file as: title, separator,
  \<open>Source Language\<close>, \<open>Target Language\<close>, blank, \<open>Original Text:\<close> and the text, blank,
  \<open>Translation:\<close> and the text. The second write ends with two newlines, so the file has
  one more blank line, between the separator and the \<open>Source Language\<close> line. Whenever a
  file is written, it is written at the path the dialog gave, the stripped translation is
  not empty, and its text is, each item followed by a newline: the title
  \<open>Phrase Bridge Translation\<close>, a separator of 31 equals signs, an empty line,
  \<open>Source Language: \<close> and the name, \<open>Target Language: \<close> and the name, an empty line,
  \<open>Original Text:\<close>, the stripped original text, an empty line, \<open>Translation:\<close>, the
  stripped translation.
\<close>

theorem C9_saved_file_layout:
  assumes "save_translation w file_path = Some (p, content)"
  shows "p = file_path \<and> file_path \<noteq> [] \<and> str_strip (output_text w) \<noteq> [] \<and>
         content = unlines
           [''Phrase Bridge Translation'',
            replicate 31 (CHR ''=''),
            [],
            ''Source Language: '' @ source_lang_var w,
            ''Target Language: '' @ target_lang_var w,
            [],
            ''Original Text:'',
            str_strip (input_text w),
            [],
            ''Translation:'',
            str_strip (output_text w)]"
proof -
  from assms have ne: "str_strip (output_text w) \<noteq> []" "file_path \<noteq> []"
    by (auto simp add: save_translation_def Let_def split: if_splits)
  with assms have p: "p = file_path"
    and c: "content = concat (save_translation_writes (source_lang_var w) (target_lang_var w)
                (str_strip (input_text w)) (str_strip (output_text w)))"
    by (simp_all add: save_translation_def Let_def)
  have "content = unlines
           [''Phrase Bridge Translation'', replicate 31 (CHR ''=''), [],
            ''Source Language: '' @ source_lang_var w,
            ''Target Language: '' @ target_lang_var w, [], ''Original Text:'',
            str_strip (input_text w), [], ''Translation:'', str_strip (output_text w)]"
    unfolding c save_translation_writes_def unlines_def separator_line [symmetric]
    by simp
  with p ne show ?thesis by simp
qed

theorem C9_saved_file_layout_witness:
  "save_translation
     \<lparr>output_text = ''hola\<newline>'', input_text = ''hello\<newline>'',
      source_lang_var = ''English'', target_lang_var = ''Spanish''\<rparr> ''out.txt''
     = Some (''out.txt'',
         unlines
           [''Phrase Bridge Translation'',
            ''==============================='',
            [],
            ''Source Language: English'',
            ''Target Language: Spanish'',
            [],
            ''Original Text:'',
            ''hello'',
            [],
            ''Translation:'',
            ''hola''])"
proof -
  have s: "save_translation
     \<lparr>output_text = ''hola\<newline>'', input_text = ''hello\<newline>'',
      source_lang_var = ''English'', target_lang_var = ''Spanish''\<rparr> ''out.txt''
     = Some (''out.txt'',
         concat (save_translation_writes ''English'' ''Spanish'' ''hello'' ''hola''))"
    by (simp add: save_translation_def Let_def str_strip_def str_rstrip_def str_lstrip_def
          isspace_def)
  from C9_saved_file_layout [OF s] show ?thesis
    unfolding s
    by (simp add: separator_literal str_strip_def str_rstrip_def str_lstrip_def isspace_def)
qed

text \<open>The layout of the claim, without the blank line after the separator, is not what
  is written.\<close>

theorem C9_missing_blank_line_counterexample:
  "save_translation
     \<lparr>output_text = ''hola\<newline>'', input_text = ''hello\<newline>'',
      source_lang_var = ''English'', target_lang_var = ''Spanish''\<rparr> ''out.txt''
     = Some (''out.txt'',
         unlines
           [''Phrase Bridge Translation'',
            ''==============================='',
            [],
            ''Source Language: English'',
            ''Target Language: Spanish'',
            [],
            ''Original Text:'',
            ''hello'',
            [],
            ''Translation:'',
            ''hola'']) \<and>
   save_translation
     \<lparr>output_text = ''hola\<newline>'', input_text = ''hello\<newline>'',
      source_lang_var = ''English'', target_lang_var = ''Spanish''\<rparr> ''out.txt''
     \<noteq> Some (''out.txt'',
         unlines
           [''Phrase Bridge Translation'',
            ''==============================='',
            ''Source Language: English'',
            ''Target Language: Spanish'',
            [],
            ''Original Text:'',
            ''hello'',
            [],
            ''Translation:'',
            ''hola''])"
  by (simp add: save_translation_def Let_def str_strip_def str_rstrip_def str_lstrip_def
        isspace_def save_translation_writes_def unlines_def numeral_eq_Suc)

end
